theory Spec2Isabelle
  imports Complex_Main "HOL-Library.Sublist"
begin

section \<open>Air density from ERA5 temperature, pressure and humidity\<close>

text \<open>
  The function \<open>compute_air_density\<close> of \<^verbatim>\<open>era5-air-density-calc.py\<close> works on
  one-dimensional numpy arrays. An array is modelled by the list of its elements together
  with its dtype: the function converts temperature and pressure with
  \<^verbatim>\<open>astype(float)\<close>, so integer input is part of its domain.

  A float64 element is modelled by a real number: the arithmetic below is exact, it has
  no rounding, no overflow of \<open>exp\<close>, no NaN and no infinity. In particular \<open>1 / 0\<close>
  is \<open>0\<close> in HOL where numpy yields \<open>inf\<close> or \<open>nan\<close>: the theorems that state the
  value of a density assume temperatures different from zero, the other theorems compare
  one call with another. What depends on overflow, on infinities or on NaN is stated on
  the model of the next section.

  The arrays are numpy arrays. A pandas Series is such an array with an index, and two
  Series are combined by index label, not by position: that is not modelled.
\<close>

datatype ndarray = IntArr "int list" | FloatArr "real list"

text \<open>
  Two things can go wrong in a call: the \<^verbatim>\<open>raise Exception(...)\<close> of the validation,
  and numpy's \<^verbatim>\<open>ValueError\<close> for operands whose shapes cannot be broadcast together.
\<close>

datatype error = NegativeValues | BroadcastError

text \<open>\<^verbatim>\<open>a.shape[0]\<close>\<close>

fun shape0 :: "ndarray \<Rightarrow> nat" where
  "shape0 (IntArr xs) = length xs"
| "shape0 (FloatArr xs) = length xs"

text \<open>\<^verbatim>\<open>np.repeat(v, n)\<close> for a float scalar \<open>v\<close>\<close>

definition np_repeat :: "real \<Rightarrow> nat \<Rightarrow> ndarray" where
  "np_repeat v n = FloatArr (replicate n v)"

text \<open>\<^verbatim>\<open>np.any(a < 0)\<close>\<close>

fun any_lt0 :: "ndarray \<Rightarrow> bool" where
  "any_lt0 (IntArr xs) = list_ex (\<lambda>x. x < 0) xs"
| "any_lt0 (FloatArr xs) = list_ex (\<lambda>x. x < 0) xs"

text \<open>
  \<^verbatim>\<open>a.astype(float)\<close>: the elements as floats. The same conversion is numpy's type
  promotion when an integer array meets a float array in an arithmetic operation.
\<close>

fun astype_float :: "ndarray \<Rightarrow> real list" where
  "astype_float (IntArr xs) = map real_of_int xs"
| "astype_float (FloatArr xs) = xs"

text \<open>
  An elementwise binary operation on two one-dimensional arrays, with numpy's
  broadcasting: equal lengths pair up, an array of length one is stretched to the other
  length, anything else is a \<^verbatim>\<open>ValueError\<close>.
\<close>

definition broadcast2 :: "('a \<Rightarrow> 'b \<Rightarrow> 'c) \<Rightarrow> 'a list \<Rightarrow> 'b list \<Rightarrow> error + 'c list" where
  "broadcast2 f xs ys =
     (if length xs = length ys then Inr (map2 f xs ys)
      else if length xs = 1 then Inr (map (f (hd xs)) ys)
      else if length ys = 1 then Inr (map (\<lambda>x. f x (hd ys)) xs)
      else Inl BroadcastError)"

text \<open>An exception raised by a subexpression ends the evaluation.\<close>

definition bind_err :: "error + 'a \<Rightarrow> ('a \<Rightarrow> error + 'b) \<Rightarrow> error + 'b" where
  "bind_err r f = (case r of Inl e \<Rightarrow> Inl e | Inr v \<Rightarrow> f v)"

text \<open>
  The function itself. The humidity argument is optional (\<^verbatim>\<open>humi_col=None\<close>). The
  expression for \<open>rho\<close> is evaluated as Python does: \<^verbatim>\<open>1 / temp_col\<close>, then
  \<^verbatim>\<open>pres_col / R_const\<close>, then the vapour term, the subtraction and the outer product.
  Operations between an array and a scalar cannot fail; the three operations between two
  arrays can fail to broadcast. The humidity array is never converted with
  \<^verbatim>\<open>astype\<close>: it is promoted to float by its product with a float array.
\<close>

definition compute_air_density :: "ndarray \<Rightarrow> ndarray \<Rightarrow> ndarray option \<Rightarrow> error + real list" where
  "compute_air_density temp_col pres_col humi_col =
     (let rel_humidity = (case humi_col of Some h \<Rightarrow> h | None \<Rightarrow> np_repeat 0.5 (shape0 temp_col)) in
      if any_lt0 temp_col \<or> any_lt0 pres_col \<or> any_lt0 rel_humidity then Inl NegativeValues
      else
        let temp = astype_float temp_col;
            pres = astype_float pres_col;
            R_const = 287.05;
            Rw_const = 461.5
        in bind_err
             (broadcast2 (*) (astype_float rel_humidity)
                (map (\<lambda>t. 0.0000205 * exp (0.0631846 * t)) temp))
             (\<lambda>vap. bind_err
                (broadcast2 (-) (map (\<lambda>p. p / R_const) pres)
                   (map (\<lambda>v. v * (1 / R_const - 1 / Rw_const)) vap))
                (\<lambda>inner. broadcast2 (*) (map (\<lambda>t. 1 / t) temp) inner)))"

section \<open>The same function with overflow, infinities and NaN\<close>

text \<open>
  Over the reals \<open>exp\<close> never overflows and a product is never undefined; in float64
  both happen. This model keeps the values that IEEE 754 adds to the finite ones. A
  finite value is still an exact real: rounding and underflow are not modelled, and
  \<open>+0\<close> and \<open>-0\<close> are one value. The theorems stated on this model are those that
  rounding cannot change: which results are finite, infinite or NaN, the order of two
  results, and a result written with the operations of the source.
\<close>

datatype f64 = Fin real | PInf | NInf | NaN

text \<open>
  The largest finite float64. A result is finite as long as it is nearer to
  \<open>f64_max\<close> than to \<open>2 ^ 1024\<close>, and is an infinity otherwise.
\<close>

definition f64_max :: real where
  "f64_max = 2 ^ 1024 - 2 ^ 971"

definition overflow :: "real \<Rightarrow> f64" where
  "overflow x = (if \<bar>x\<bar> < f64_max + 2 ^ 970 then Fin x else if 0 < x then PInf else NInf)"

text \<open>
  Multiplication, subtraction, division and \<^verbatim>\<open>np.exp\<close>. numpy does not raise on a
  division by zero or on an overflow: it warns and returns an infinity or NaN.
\<close>

fun fmul :: "f64 \<Rightarrow> f64 \<Rightarrow> f64" where
  "fmul (Fin a) (Fin b) = overflow (a * b)"
| "fmul NaN _ = NaN"
| "fmul _ NaN = NaN"
| "fmul (Fin a) PInf = (if a = 0 then NaN else if 0 < a then PInf else NInf)"
| "fmul (Fin a) NInf = (if a = 0 then NaN else if 0 < a then NInf else PInf)"
| "fmul PInf (Fin b) = (if b = 0 then NaN else if 0 < b then PInf else NInf)"
| "fmul NInf (Fin b) = (if b = 0 then NaN else if 0 < b then NInf else PInf)"
| "fmul PInf PInf = PInf"
| "fmul PInf NInf = NInf"
| "fmul NInf PInf = NInf"
| "fmul NInf NInf = PInf"

fun fsub :: "f64 \<Rightarrow> f64 \<Rightarrow> f64" where
  "fsub (Fin a) (Fin b) = overflow (a - b)"
| "fsub NaN _ = NaN"
| "fsub _ NaN = NaN"
| "fsub (Fin a) PInf = NInf"
| "fsub (Fin a) NInf = PInf"
| "fsub PInf (Fin b) = PInf"
| "fsub NInf (Fin b) = NInf"
| "fsub PInf PInf = NaN"
| "fsub PInf NInf = PInf"
| "fsub NInf PInf = NInf"
| "fsub NInf NInf = NaN"

fun fdiv :: "f64 \<Rightarrow> f64 \<Rightarrow> f64" where
  "fdiv (Fin a) (Fin b) =
     (if b = 0 then (if a = 0 then NaN else if 0 < a then PInf else NInf)
      else overflow (a / b))"
| "fdiv NaN _ = NaN"
| "fdiv _ NaN = NaN"
| "fdiv (Fin a) PInf = Fin 0"
| "fdiv (Fin a) NInf = Fin 0"
| "fdiv PInf (Fin b) = (if 0 \<le> b then PInf else NInf)"
| "fdiv NInf (Fin b) = (if 0 \<le> b then NInf else PInf)"
| "fdiv PInf PInf = NaN"
| "fdiv PInf NInf = NaN"
| "fdiv NInf PInf = NaN"
| "fdiv NInf NInf = NaN"

fun fexp :: "f64 \<Rightarrow> f64" where
  "fexp (Fin a) = overflow (exp a)"
| "fexp PInf = PInf"
| "fexp NInf = Fin 0"
| "fexp NaN = NaN"

text \<open>The comparisons \<^verbatim>\<open><\<close> and \<^verbatim>\<open><=\<close>: false whenever an operand is NaN.\<close>

fun flt :: "f64 \<Rightarrow> f64 \<Rightarrow> bool" where
  "flt (Fin a) (Fin b) = (a < b)"
| "flt NaN _ = False"
| "flt _ NaN = False"
| "flt _ NInf = False"
| "flt PInf _ = False"
| "flt NInf _ = True"
| "flt _ PInf = True"

fun fle :: "f64 \<Rightarrow> f64 \<Rightarrow> bool" where
  "fle (Fin a) (Fin b) = (a \<le> b)"
| "fle NaN _ = False"
| "fle _ NaN = False"
| "fle NInf _ = True"
| "fle _ PInf = True"
| "fle _ NInf = False"
| "fle PInf _ = False"

text \<open>
  Lines 33 to 46 on arrays of dtype float64 (\<^verbatim>\<open>astype(float)\<close> copies such an array
  unchanged), with the operations in the order of the source.
\<close>

definition compute_air_density_f64 :: "f64 list \<Rightarrow> f64 list \<Rightarrow> f64 list option \<Rightarrow> error + f64 list" where
  "compute_air_density_f64 temp_col pres_col humi_col =
     (let rel_humidity = (case humi_col of Some h \<Rightarrow> h | None \<Rightarrow> replicate (length temp_col) (Fin 0.5)) in
      if list_ex (\<lambda>x. flt x (Fin 0)) temp_col \<or> list_ex (\<lambda>x. flt x (Fin 0)) pres_col \<or>
         list_ex (\<lambda>x. flt x (Fin 0)) rel_humidity
      then Inl NegativeValues
      else
        let R_const = Fin 287.05;
            Rw_const = Fin 461.5
        in bind_err
             (broadcast2 fmul rel_humidity
                (map (\<lambda>t. fmul (Fin 0.0000205) (fexp (fmul (Fin 0.0631846) t))) temp_col))
             (\<lambda>vap. bind_err
                (broadcast2 fsub (map (\<lambda>p. fdiv p R_const) pres_col)
                   (map (\<lambda>v. fmul v (fsub (fdiv (Fin 1) R_const) (fdiv (Fin 1) Rw_const))) vap))
                (\<lambda>inner. broadcast2 fmul (map (\<lambda>t. fdiv (Fin 1) t) temp_col) inner)))"

section \<open>The same function on a heap of arrays\<close>

text \<open>
  numpy arrays are mutable objects and Python passes references. To state what a call
  does to the caller's arrays, the function is modelled a second time on an explicit
  heap: a list of arrays, an address being a position in it. A run maps a heap to an
  outcome (an error or a value) and the heap afterwards.
\<close>

type_synonym addr = nat
type_synonym heap = "ndarray list"
type_synonym 'a run = "heap \<Rightarrow> (error + 'a) \<times> heap"

text \<open>Returning a value, raising, and running one computation after another.\<close>

definition ret :: "'a \<Rightarrow> 'a run" where
  "ret v h = (Inr v, h)"

definition raise :: "error \<Rightarrow> 'a run" where
  "raise e h = (Inl e, h)"

definition seq :: "'a run \<Rightarrow> ('a \<Rightarrow> 'b run) \<Rightarrow> 'b run" where
  "seq m f h = (case m h of (Inl e, h') \<Rightarrow> (Inl e, h') | (Inr v, h') \<Rightarrow> f v h')"

text \<open>
  Reading the array a name refers to, and creating a new array object. A new object
  gets the next free address; nothing in the source frees or overwrites an array.
\<close>

definition load :: "addr \<Rightarrow> ndarray run" where
  "load a h = (Inr (h ! a), h)"

definition new_array :: "ndarray \<Rightarrow> addr run" where
  "new_array x h = (Inr (length h), h @ [x])"

text \<open>
  The numpy operations of the source. \<^verbatim>\<open>np.any(a < 0)\<close> only reads \<open>a\<close> (its
  temporary boolean array is dropped at once). \<^verbatim>\<open>astype\<close>, an operation between an
  array and a scalar, \<^verbatim>\<open>np.exp\<close> and an operation between two arrays each return a
  new array and leave their operands alone. Every such operation of the source has a
  float operand, so its result is a float array. A name of the source always refers to
  a live object: the theorems assume addresses inside the heap.
\<close>

definition np_any_lt0 :: "addr \<Rightarrow> bool run" where
  "np_any_lt0 a = seq (load a) (\<lambda>x. ret (any_lt0 x))"

definition np_astype_float :: "addr \<Rightarrow> addr run" where
  "np_astype_float a = seq (load a) (\<lambda>x. new_array (FloatArr (astype_float x)))"

definition np_scalar_op :: "(real \<Rightarrow> real) \<Rightarrow> addr \<Rightarrow> addr run" where
  "np_scalar_op f a = seq (load a) (\<lambda>x. new_array (FloatArr (map f (astype_float x))))"

definition np_array_op :: "(real \<Rightarrow> real \<Rightarrow> real) \<Rightarrow> addr \<Rightarrow> addr \<Rightarrow> addr run" where
  "np_array_op f a b =
     seq (load a) (\<lambda>x. seq (load b) (\<lambda>y.
       case broadcast2 f (astype_float x) (astype_float y) of
         Inl e \<Rightarrow> raise e
       | Inr zs \<Rightarrow> new_array (FloatArr zs)))"

text \<open>
  The body, statement by statement. \<open>rel_humidity\<close> is the caller's humidity array
  itself when one is passed (no copy), and a new array otherwise. Python's \<^verbatim>\<open>or\<close>
  evaluates its operands from left to right and stops at the first true one. Line 40
  binds the local names to new float arrays. Line 44 creates one array per operation,
  in Python's evaluation order.
\<close>

definition compute_air_density_heap :: "addr \<Rightarrow> addr \<Rightarrow> addr option \<Rightarrow> addr run" where
  "compute_air_density_heap temp_col pres_col humi_col =
     seq (case humi_col of
            Some a \<Rightarrow> ret a
          | None \<Rightarrow> seq (load temp_col) (\<lambda>t. new_array (np_repeat 0.5 (shape0 t))))
     (\<lambda>rel_humidity.
     seq (np_any_lt0 temp_col) (\<lambda>neg_t.
     seq (if neg_t then ret True else np_any_lt0 pres_col) (\<lambda>neg_tp.
     seq (if neg_tp then ret True else np_any_lt0 rel_humidity) (\<lambda>neg.
     if neg then raise NegativeValues
     else
       seq (np_astype_float temp_col) (\<lambda>temp.
       seq (np_astype_float pres_col) (\<lambda>pres.
       seq (np_scalar_op (\<lambda>t. 1 / t) temp) (\<lambda>inv_temp.
       seq (np_scalar_op (\<lambda>p. p / 287.05) pres) (\<lambda>dry.
       seq (np_scalar_op (\<lambda>t. 0.0631846 * t) temp) (\<lambda>arg.
       seq (np_scalar_op exp arg) (\<lambda>ex.
       seq (np_scalar_op (\<lambda>v. 0.0000205 * v) ex) (\<lambda>sat.
       seq (np_array_op (*) rel_humidity sat) (\<lambda>vap.
       seq (np_scalar_op (\<lambda>v. v * (1 / 287.05 - 1 / 461.5)) vap) (\<lambda>wet.
       seq (np_array_op (-) dry wet) (\<lambda>inner.
       np_array_op (*) inv_temp inner))))))))))))))"

text \<open>\<open>wp m h Q\<close>: the run of \<open>m\<close> from heap \<open>h\<close> ends in an outcome and a heap that satisfy \<open>Q\<close>.\<close>

definition wp :: "'a run \<Rightarrow> heap \<Rightarrow> (error + 'a \<Rightarrow> heap \<Rightarrow> bool) \<Rightarrow> bool" where
  "wp m h Q = (case m h of (r, h') \<Rightarrow> Q r h')"

section \<open>Properties\<close>

subsection \<open>The value of a call\<close>

lemma any_lt0_iff: "any_lt0 a \<longleftrightarrow> (\<exists>x\<in>set (astype_float a). x < 0)"
  by (cases a) (auto simp: list_ex_iff)

lemma broadcast2_not_negative: "broadcast2 f xs ys \<noteq> Inl NegativeValues"
  by (simp add: broadcast2_def)

lemma length_astype_float: "length (astype_float a) = shape0 a"
  by (cases a) simp_all

lemma broadcast2_same: "length xs = length ys \<Longrightarrow> broadcast2 f xs ys = Inr (map2 f xs ys)"
  by (simp add: broadcast2_def)

lemma compute_no_negative:
  assumes "\<not> any_lt0 temp_col" "\<not> any_lt0 pres_col" "\<not> any_lt0 h"
  shows "compute_air_density temp_col pres_col (Some h) =
     bind_err
       (broadcast2 (*) (astype_float h)
          (map (\<lambda>t. 0.0000205 * exp (0.0631846 * t)) (astype_float temp_col)))
       (\<lambda>vap. bind_err
          (broadcast2 (-) (map (\<lambda>p. p / 287.05) (astype_float pres_col))
             (map (\<lambda>v. v * (1 / 287.05 - 1 / 461.5)) vap))
          (\<lambda>inner. broadcast2 (*) (map (\<lambda>t. 1 / t) (astype_float temp_col)) inner))"
  using assms by (simp add: compute_air_density_def Let_def)

lemma compute_equal_lengths:
  assumes len: "shape0 pres_col = shape0 temp_col" "shape0 h = shape0 temp_col"
    and ok: "\<not> any_lt0 temp_col" "\<not> any_lt0 pres_col" "\<not> any_lt0 h"
  shows "compute_air_density temp_col pres_col (Some h) =
     Inr (map (\<lambda>i. (1 / astype_float temp_col ! i) *
                 (astype_float pres_col ! i / 287.05 -
                  astype_float h ! i * (0.0000205 * exp (0.0631846 * astype_float temp_col ! i)) *
                  (1 / 287.05 - 1 / 461.5)))
            [0..<shape0 temp_col])"
proof -
  let ?T = "astype_float temp_col" and ?P = "astype_float pres_col" and ?H = "astype_float h"
  have l: "length ?P = length ?T" "length ?H = length ?T" "length ?T = shape0 temp_col"
    using len by (simp_all add: length_astype_float)
  show ?thesis
    unfolding compute_no_negative [OF ok]
    using l by (auto simp: broadcast2_same bind_err_def intro!: nth_equalityI)
qed

lemma bind_err_not_negative:
  assumes "r \<noteq> Inl NegativeValues" and "\<And>v. f v \<noteq> Inl NegativeValues"
  shows "bind_err r f \<noteq> Inl NegativeValues"
  using assms by (cases r) (simp_all add: bind_err_def)

lemma validation_decides:
  "compute_air_density temp_col pres_col humi_col = Inl NegativeValues \<longleftrightarrow>
     any_lt0 temp_col \<or> any_lt0 pres_col \<or>
     any_lt0 (case humi_col of Some h \<Rightarrow> h | None \<Rightarrow> np_repeat 0.5 (shape0 temp_col))"
  by (simp add: compute_air_density_def Let_def bind_err_not_negative broadcast2_not_negative)



text \<open>
  C2: the call ends in the validation's exception exactly when some element of the
  temperature, of the pressure or of a supplied humidity is negative. The check comes
  before the arithmetic, so it does not depend on the lengths, and the error carries no
  array: no partial result exists.
\<close>

theorem negative_values_iff:
  "compute_air_density temp_col pres_col humi_col = Inl NegativeValues \<longleftrightarrow>
     (\<exists>x\<in>set (astype_float temp_col). x < 0) \<or>
     (\<exists>x\<in>set (astype_float pres_col). x < 0) \<or>
     (\<exists>h. humi_col = Some h \<and> (\<exists>x\<in>set (astype_float h). x < 0))"
proof (cases humi_col)
  case None
  then show ?thesis
    unfolding validation_decides
    by (simp add: np_repeat_def list_ex_iff any_lt0_iff)
next
  case (Some h)
  then show ?thesis
    unfolding validation_decides
    by (simp add: any_lt0_iff)
qed

theorem negative_values_iff_witness:
  "compute_air_density (FloatArr [-1]) (FloatArr [101325]) None = Inl NegativeValues \<and>
   compute_air_density (FloatArr [288.15]) (IntArr [101325]) (Some (FloatArr [-0.5])) = Inl NegativeValues \<and>
   compute_air_density (FloatArr [250]) (FloatArr [90000, 80000, 70000]) (Some (FloatArr [0, 0])) \<noteq> Inl NegativeValues"
  using negative_values_iff [of "FloatArr [-1]" "FloatArr [101325]" None]
    negative_values_iff [of "FloatArr [288.15]" "IntArr [101325]" "Some (FloatArr [-0.5])"]
    negative_values_iff [of "FloatArr [250]" "FloatArr [90000, 80000, 70000]" "Some (FloatArr [0, 0])"]
  by simp

text \<open>
  C3: omitting the humidity gives the same result or error as passing the constant
  0.5 repeated \<open>len(T)\<close> times.
\<close>

theorem humidity_default:
  "compute_air_density temp_col pres_col None =
   compute_air_density temp_col pres_col (Some (FloatArr (replicate (shape0 temp_col) 0.5)))"
  by (simp add: compute_air_density_def np_repeat_def)

text \<open>
  C4: for float arrays of one length with no negative element the result exists, it has
  the length of the temperature array, and its element at index \<open>i\<close> is the density
  of the single sample \<open>(T[i], P[i], phi[i])\<close>: samples are neither dropped nor
  reordered.
\<close>

theorem output_aligned:
  assumes "length P = length T" and "length H = length T"
    and "\<forall>t\<in>set T. 0 \<le> t" and "\<forall>p\<in>set P. 0 \<le> p" and "\<forall>h\<in>set H. 0 \<le> h"
  shows "\<exists>rho. compute_air_density (FloatArr T) (FloatArr P) (Some (FloatArr H)) = Inr rho \<and>
     length rho = length T \<and>
     (\<forall>i<length T.
        compute_air_density (FloatArr [T ! i]) (FloatArr [P ! i]) (Some (FloatArr [H ! i])) =
        Inr [rho ! i])"
proof -
  have ok: "\<not> any_lt0 (FloatArr T)" "\<not> any_lt0 (FloatArr P)" "\<not> any_lt0 (FloatArr H)"
    using assms by (simp_all add: list_ex_iff not_less)
  have one: "compute_air_density (FloatArr [T ! i]) (FloatArr [P ! i]) (Some (FloatArr [H ! i])) =
      Inr [(1 / T ! i) * (P ! i / 287.05 -
            H ! i * (0.0000205 * exp (0.0631846 * T ! i)) * (1 / 287.05 - 1 / 461.5))]"
    if "i < length T" for i
  proof -
    have "\<not> any_lt0 (FloatArr [T ! i])" "\<not> any_lt0 (FloatArr [P ! i])" "\<not> any_lt0 (FloatArr [H ! i])"
      using assms that by (simp_all add: not_less)
    from compute_equal_lengths [OF _ _ this] show ?thesis
      by simp
  qed
  show ?thesis
    using assms(1,2) one
    by (simp add: compute_equal_lengths [OF _ _ ok])
qed

theorem output_aligned_witness:
  "\<exists>rho. compute_air_density (FloatArr [250, 300, 280]) (FloatArr [90000, 100000, 5]) (Some (FloatArr [0, 1, 2])) = Inr rho \<and>
     length rho = 3 \<and>
     compute_air_density (FloatArr [250]) (FloatArr [90000]) (Some (FloatArr [0])) = Inr [rho ! 0] \<and>
     compute_air_density (FloatArr [300]) (FloatArr [100000]) (Some (FloatArr [1])) = Inr [rho ! 1] \<and>
     compute_air_density (FloatArr [280]) (FloatArr [5]) (Some (FloatArr [2])) = Inr [rho ! 2]"
  using output_aligned [of "[90000, 100000, 5]" "[250, 300, 280]" "[0, 1, 2]"]
  by (auto simp: less_Suc_eq numeral_3_eq_3 numeral_2_eq_2)

subsection \<open>The standard atmosphere\<close>

text \<open>
  Bounds for \<open>exp\<close> at the argument \<open>0.0631846 * 288.15 = 18.20664249\<close>, from the
  series of \<open>exp\<close>: \<open>exp 1\<close> lies between 2.69 and 2.74, hence \<open>exp 18\<close> between
  their 18th powers, and \<open>exp 0.20664249\<close> between \<open>1 + y\<close> and \<open>1 + y + y\<^sup>2\<close>.
\<close>

lemma exp_1_lower: "(269 / 100 :: real) \<le> exp 1"
proof -
  have "(1 + 1/4 + (1/4)\<^sup>2 / 2 :: real) \<le> exp (1/4)"
    by (rule exp_lower_Taylor_quadratic) simp
  then have "(41/32 :: real) \<le> exp (1/4)"
    by (simp add: power2_eq_square)
  then have "(41/32 :: real) ^ 4 \<le> exp (1/4) ^ 4"
    by (intro power_mono) simp_all
  also have "exp (1/4 :: real) ^ 4 = exp 1"
    using exp_of_nat_mult [of 4 "1/4 :: real"] by simp
  finally show ?thesis
    by (simp add: power_divide)
qed

lemma exp_1_upper: "exp 1 \<le> (274 / 100 :: real)"
proof -
  have "exp (1/64) \<le> (1 + 1/64 + (1/64)\<^sup>2 :: real)"
    by (rule exp_bound) simp_all
  then have "exp (1/64) \<le> (4161/4096 :: real)"
    by (simp add: power2_eq_square)
  then have "exp (1/64 :: real) ^ 64 \<le> (4161/4096) ^ 64"
    by (intro power_mono) simp_all
  moreover have "exp (1/64 :: real) ^ 64 = exp 1"
    using exp_of_nat_mult [of 64 "1/64 :: real"] by simp
  moreover have "(4161/4096 :: real) ^ 64 \<le> 274 / 100"
    by (simp add: power_divide)
  ultimately show ?thesis
    by simp
qed

lemma exp_18_bounds: "(269 / 100 :: real) ^ 18 \<le> exp 18" "exp 18 \<le> (274 / 100 :: real) ^ 18"
proof -
  have e: "exp (18 :: real) = exp 1 ^ 18"
    using exp_of_nat_mult [of 18 "1 :: real"] by simp
  show "(269 / 100 :: real) ^ 18 \<le> exp 18"
    unfolding e by (intro power_mono exp_1_lower) simp
  show "exp 18 \<le> (274 / 100 :: real) ^ 18"
    unfolding e by (intro power_mono exp_1_upper) simp
qed

lemma exp_standard_temperature:
  "(65000000 :: real) \<le> exp (0.0631846 * 288.15)" "exp (0.0631846 * 288.15) \<le> (95000000 :: real)"
proof -
  define y :: real where "y = 20664249 / 100000000"
  have x: "(0.0631846 * 288.15 :: real) = 18 + y"
    by (simp add: y_def)
  have y: "0 \<le> y" "y \<le> 1"
    by (simp_all add: y_def)
  have lo: "1 + y \<le> exp y"
    by (rule exp_ge_add_one_self)
  have hi: "exp y \<le> 1 + y + y\<^sup>2"
    by (rule exp_bound [OF y])
  have "(269 / 100 :: real) ^ 18 * (1 + y) \<le> exp 18 * exp y"
    using exp_18_bounds(1) lo y(1) by (intro mult_mono) simp_all
  moreover have "(65000000 :: real) \<le> (269 / 100) ^ 18 * (1 + y)"
    by (simp add: y_def power_divide)
  ultimately show "(65000000 :: real) \<le> exp (0.0631846 * 288.15)"
    unfolding x exp_add by linarith
  have "exp 18 * exp y \<le> (274 / 100 :: real) ^ 18 * (1 + y + y\<^sup>2)"
    using exp_18_bounds(2) hi by (intro mult_mono) simp_all
  moreover have "(274 / 100 :: real) ^ 18 * (1 + y + y\<^sup>2) \<le> 95000000"
    by (simp add: y_def power_divide power2_eq_square)
  ultimately show "exp (0.0631846 * 288.15) \<le> (95000000 :: real)"
    unfolding x exp_add by linarith
qed

lemma standard_atmosphere_value:
  "compute_air_density (FloatArr [288.15]) (FloatArr [101325]) (Some (FloatArr [0.5])) =
     Inr [(1 / 288.15) * (101325 / 287.05 -
            0.5 * (0.0000205 * exp (0.0631846 * 288.15)) * (1 / 287.05 - 1 / 461.5))]"
  by (simp add: compute_air_density_def broadcast2_def bind_err_def)

lemma standard_atmosphere_bounds:
  fixes rho :: real
  assumes "rho = (1 / 288.15) * (101325 / 287.05 -
            0.5 * (0.0000205 * exp (0.0631846 * 288.15)) * (1 / 287.05 - 1 / 461.5))"
  shows "1.2202 \<le> rho" "rho \<le> 1.2222"
  using exp_standard_temperature unfolding assms by (simp_all add: field_simps)

text \<open>
  C5, as amended: for the single sample \<open>T = 288.15\<close>, \<open>P = 101325\<close>, \<open>phi = 0.5\<close>
  the density is within \<open>0.001\<close> of 1.2212 (it is about 1.22123; the dry-air value
  \<open>P / (287.05 * T)\<close> is about 1.22501).
\<close>

theorem standard_atmosphere_density:
  "\<exists>rho. compute_air_density (FloatArr [288.15]) (FloatArr [101325]) (Some (FloatArr [0.5])) = Inr [rho] \<and>
     \<bar>rho - 1.2212\<bar> \<le> 0.001"
proof -
  define rho :: real where "rho = (1 / 288.15) * (101325 / 287.05 -
            0.5 * (0.0000205 * exp (0.0631846 * 288.15)) * (1 / 287.05 - 1 / 461.5))"
  have "compute_air_density (FloatArr [288.15]) (FloatArr [101325]) (Some (FloatArr [0.5])) = Inr [rho]"
    unfolding rho_def by (rule standard_atmosphere_value)
  moreover have "1.2202 \<le> rho" and "rho \<le> 1.2222"
    by (rule standard_atmosphere_bounds [OF rho_def])+
  then have "rho - 1.2212 \<le> 0.001" and "- (rho - 1.2212) \<le> 0.001"
    by simp_all
  then have "\<bar>rho - 1.2212\<bar> \<le> 0.001"
    by (rule abs_leI)
  ultimately show ?thesis
    by blast
qed

text \<open>
  C5, as stated, fails: the density of that sample is not within \<open>0.001\<close> of 1.2253.
\<close>

theorem standard_atmosphere_not_12253:
  "\<not> (\<exists>rho. compute_air_density (FloatArr [288.15]) (FloatArr [101325]) (Some (FloatArr [0.5])) = Inr [rho] \<and>
     \<bar>rho - 1.2253\<bar> \<le> 0.001)"
proof
  define rho :: real where "rho = (1 / 288.15) * (101325 / 287.05 -
            0.5 * (0.0000205 * exp (0.0631846 * 288.15)) * (1 / 287.05 - 1 / 461.5))"
  have v: "compute_air_density (FloatArr [288.15]) (FloatArr [101325]) (Some (FloatArr [0.5])) = Inr [rho]"
    unfolding rho_def by (rule standard_atmosphere_value)
  have le: "rho \<le> 1.2222"
    by (rule standard_atmosphere_bounds(2) [OF rho_def])
  assume "\<exists>r. compute_air_density (FloatArr [288.15]) (FloatArr [101325]) (Some (FloatArr [0.5])) = Inr [r] \<and>
     \<bar>r - 1.2253\<bar> \<le> 0.001"
  then have "\<bar>rho - 1.2253\<bar> \<le> 0.001"
    unfolding v by simp
  then have "- (rho - 1.2253) \<le> 0.001"
    by (rule order_trans [OF abs_ge_minus_self])
  with le show False
    by simp
qed

subsection \<open>Purity and determinism\<close>

lemma wp_ret: "wp (ret v) h Q = Q (Inr v) h"
  by (simp add: wp_def ret_def)

lemma wp_raise: "wp (raise e) h Q = Q (Inl e) h"
  by (simp add: wp_def raise_def)

lemma wp_load: "wp (load a) h Q = Q (Inr (h ! a)) h"
  by (simp add: wp_def load_def)

lemma wp_new_array: "wp (new_array x) h Q = Q (Inr (length h)) (h @ [x])"
  by (simp add: wp_def new_array_def)

lemma wp_seq:
  "wp (seq m f) h Q = wp m h (\<lambda>r h'. case r of Inl e \<Rightarrow> Q (Inl e) h' | Inr v \<Rightarrow> wp (f v) h' Q)"
  by (simp add: wp_def seq_def split: prod.splits sum.splits)

lemmas wp_rules = wp_ret wp_raise wp_load wp_new_array wp_seq

lemma wp_np_any_lt0: "wp (np_any_lt0 a) h Q = Q (Inr (any_lt0 (h ! a))) h"
  by (simp add: np_any_lt0_def wp_rules)

lemma wp_np_astype_float:
  "wp (np_astype_float a) h Q = Q (Inr (length h)) (h @ [FloatArr (astype_float (h ! a))])"
  by (simp add: np_astype_float_def wp_rules)

lemma wp_np_scalar_op:
  "wp (np_scalar_op f a) h Q = Q (Inr (length h)) (h @ [FloatArr (map f (astype_float (h ! a)))])"
  by (simp add: np_scalar_op_def wp_rules)

lemma wp_np_array_op:
  "wp (np_array_op f a b) h Q =
     (case broadcast2 f (astype_float (h ! a)) (astype_float (h ! b)) of
        Inl e \<Rightarrow> Q (Inl e) h
      | Inr zs \<Rightarrow> Q (Inr (length h)) (h @ [FloatArr zs]))"
  by (simp add: np_array_op_def wp_rules split: sum.splits)

lemmas wp_numpy = wp_np_any_lt0 wp_np_astype_float wp_np_scalar_op wp_np_array_op

lemma heap_run_some:
  assumes "temp_col < length h" "pres_col < length h" "a < length h"
  shows "wp (compute_air_density_heap temp_col pres_col (Some a)) h
     (\<lambda>r h'. prefix h h' \<and>
        map_sum id ((!) h') r =
        map_sum id FloatArr (compute_air_density (h ! temp_col) (h ! pres_col) (Some (h ! a))))"
  using assms
  by (auto simp: compute_air_density_heap_def compute_air_density_def wp_rules wp_numpy Let_def
      nth_append bind_err_def comp_def split: sum.splits)

lemma heap_run_none:
  assumes "temp_col < length h" "pres_col < length h"
  shows "wp (compute_air_density_heap temp_col pres_col None) h
     (\<lambda>r h'. prefix h h' \<and>
        map_sum id ((!) h') r =
        map_sum id FloatArr (compute_air_density (h ! temp_col) (h ! pres_col) None))"
  using assms
  by (auto simp: compute_air_density_heap_def compute_air_density_def wp_rules wp_numpy Let_def
      nth_append bind_err_def comp_def split: sum.splits)

lemma heap_run:
  assumes "temp_col < length h" "pres_col < length h" "\<forall>a\<in>set_option humi_col. a < length h"
    and "compute_air_density_heap temp_col pres_col humi_col h = (r, h')"
  shows "prefix h h'"
    and "map_sum id ((!) h') r =
      map_sum id FloatArr
        (compute_air_density (h ! temp_col) (h ! pres_col) (map_option ((!) h) humi_col))"
proof -
  have "prefix h h' \<and> map_sum id ((!) h') r =
      map_sum id FloatArr
        (compute_air_density (h ! temp_col) (h ! pres_col) (map_option ((!) h) humi_col))"
  proof (cases humi_col)
    case None
    then show ?thesis
      using heap_run_none [OF assms(1,2)] assms(4) by (simp add: wp_def)
  next
    case (Some a)
    then show ?thesis
      using heap_run_some [OF assms(1,2), of a] assms(3,4) by (simp add: wp_def)
  qed
  then show "prefix h h'"
    and "map_sum id ((!) h') r =
      map_sum id FloatArr
        (compute_air_density (h ! temp_col) (h ! pres_col) (map_option ((!) h) humi_col))"
    by simp_all
qed

text \<open>A run on a small heap: twelve arrays are created, the last one is the result.\<close>

lemma heap_run_example:
  "fst (compute_air_density_heap 0 1 None [FloatArr [250], IntArr [90000]]) = Inr 13 \<and>
   length (snd (compute_air_density_heap 0 1 None [FloatArr [250], IntArr [90000]])) = 14 \<and>
   snd (compute_air_density_heap 0 1 None [FloatArr [250], IntArr [90000]]) ! 13 =
     FloatArr [(1 / 250) * (90000 / 287.05 -
        0.5 * (0.0000205 * exp (0.0631846 * 250)) * (1 / 287.05 - 1 / 461.5))]"
  by (simp add: compute_air_density_heap_def np_any_lt0_def np_astype_float_def np_scalar_op_def
      np_array_op_def seq_def load_def new_array_def ret_def raise_def np_repeat_def broadcast2_def)

text \<open>
  C7: a call creates arrays and changes none: the heap before the call is a prefix of
  the heap after it, so the input arrays are unmodified. Its outcome is determined by
  the values of its inputs: two calls whose inputs hold the same values, in any two
  heaps and at any addresses, end in the same error or in result arrays with the same
  elements.
\<close>

theorem pure_and_deterministic:
  assumes "t1 < length h1" and "p1 < length h1" and "\<forall>a\<in>set_option hu1. a < length h1"
    and "t2 < length h2" and "p2 < length h2" and "\<forall>a\<in>set_option hu2. a < length h2"
    and "h1 ! t1 = h2 ! t2" and "h1 ! p1 = h2 ! p2"
    and "map_option ((!) h1) hu1 = map_option ((!) h2) hu2"
    and "compute_air_density_heap t1 p1 hu1 h1 = (r1, h1')"
    and "compute_air_density_heap t2 p2 hu2 h2 = (r2, h2')"
  shows "prefix h1 h1' \<and> prefix h2 h2' \<and> map_sum id ((!) h1') r1 = map_sum id ((!) h2') r2"
  using heap_run [OF assms(1,2,3,10)] heap_run [OF assms(4,5,6,11)] assms(7,8,9)
  by simp

theorem pure_and_deterministic_witness:
  "prefix [FloatArr [250], IntArr [90000]]
     (snd (compute_air_density_heap 0 1 None [FloatArr [250], IntArr [90000]])) \<and>
   prefix (snd (compute_air_density_heap 0 1 None [FloatArr [250], IntArr [90000]]))
     (snd (compute_air_density_heap 0 1 None
        (snd (compute_air_density_heap 0 1 None [FloatArr [250], IntArr [90000]])))) \<and>
   map_sum id
     ((!) (snd (compute_air_density_heap 0 1 None [FloatArr [250], IntArr [90000]])))
     (fst (compute_air_density_heap 0 1 None [FloatArr [250], IntArr [90000]])) =
   map_sum id
     ((!) (snd (compute_air_density_heap 0 1 None
        (snd (compute_air_density_heap 0 1 None [FloatArr [250], IntArr [90000]])))))
     (fst (compute_air_density_heap 0 1 None
        (snd (compute_air_density_heap 0 1 None [FloatArr [250], IntArr [90000]]))))"
proof -
  let ?h = "[FloatArr [250], IntArr [90000]]"
  let ?run1 = "compute_air_density_heap 0 1 None ?h"
  let ?run2 = "compute_air_density_heap 0 1 None (snd ?run1)"
  have "length (snd ?run1) = 14" "snd ?run1 ! 0 = FloatArr [250]" "snd ?run1 ! 1 = IntArr [90000]"
    by (simp_all add: compute_air_density_heap_def np_any_lt0_def np_astype_float_def
        np_scalar_op_def np_array_op_def seq_def load_def new_array_def ret_def raise_def
        np_repeat_def broadcast2_def)
  then show ?thesis
    using pure_and_deterministic [of 0 ?h 1 None 0 "snd ?run1" 1 None "fst ?run1" "snd ?run1"
        "fst ?run2" "snd ?run2"]
    by simp
qed

subsection \<open>Integer input\<close>

text \<open>
  C8: every array enters the arithmetic as a float array, so a call on integer arrays is
  the call on the float arrays with the same values; no integer division takes place.
\<close>

theorem integer_input_as_float:
  "compute_air_density temp_col pres_col humi_col =
   compute_air_density (FloatArr (astype_float temp_col)) (FloatArr (astype_float pres_col))
     (map_option (\<lambda>h. FloatArr (astype_float h)) humi_col)"
proof -
  have "any_lt0 (FloatArr (astype_float a)) = any_lt0 a" for a
    by (cases a) (simp_all add: list_ex_iff)
  moreover have "shape0 (FloatArr (astype_float a)) = shape0 a" for a
    by (cases a) simp_all
  ultimately show ?thesis
    by (cases humi_col) (simp_all add: compute_air_density_def Let_def)
qed

subsection \<open>Overflow, infinities and NaN\<close>

lemma f64_max_bounds: "2 ^ 1023 \<le> f64_max" "f64_max < 2 ^ 1024" "f64_max + 2 ^ 970 \<le> 2 ^ 1024"
  by (simp_all add: f64_max_def)

lemma overflow_Fin: "\<bar>x\<bar> \<le> f64_max \<Longrightarrow> overflow x = Fin x"
  by (simp add: overflow_def)

lemma overflow_PInf: "2 ^ 1024 \<le> x \<Longrightarrow> overflow x = PInf"
  using f64_max_bounds(3) by (simp add: overflow_def)

lemma fle_overflow: "a \<le> b \<Longrightarrow> fle (overflow a) (overflow b)"
  by (auto simp: overflow_def)

lemma pow_274: "(274 / 100 :: real) ^ 696 \<le> 2 ^ 1013"
proof -
  have a: "(274 / 100 :: real) ^ 11 \<le> 2 ^ 16"
    by (simp add: power_divide)
  have "((274 / 100 :: real) ^ 11) ^ 63 \<le> (2 ^ 16) ^ 63"
    by (intro power_mono a) simp
  then have b: "(274 / 100 :: real) ^ 693 \<le> 2 ^ 1008"
    by (simp only: power_mult [symmetric]) simp
  have c: "(274 / 100 :: real) ^ 3 \<le> 2 ^ 5"
    by (simp add: power_divide)
  have "(274 / 100 :: real) ^ 693 * (274 / 100) ^ 3 \<le> 2 ^ 1008 * 2 ^ 5"
    by (intro mult_mono b c) simp_all
  then show ?thesis
    by (simp only: power_add [symmetric]) simp
qed

lemma pow_269: "(2 :: real) ^ 1024 \<le> (269 / 100) ^ 758"
proof -
  have a: "(2 :: real) ^ 7 \<le> (269 / 100) ^ 5"
    by (simp add: power_divide)
  have "((2 :: real) ^ 7) ^ 151 \<le> ((269 / 100) ^ 5) ^ 151"
    by (intro power_mono a) simp
  then have b: "(2 :: real) ^ 1057 \<le> (269 / 100) ^ 755"
    by (simp only: power_mult [symmetric]) simp
  have "(2 :: real) ^ 1024 \<le> 2 ^ 1057"
    by (intro power_increasing) simp_all
  also note b
  also have "(269 / 100 :: real) ^ 755 \<le> (269 / 100) ^ 758"
    by (intro power_increasing) simp_all
  finally show ?thesis .
qed

lemma exp_696_upper: "exp (696 :: real) \<le> 2 ^ 1013"
proof -
  have "exp (696 :: real) = exp 1 ^ 696"
    using exp_of_nat_mult [of 696 "1 :: real"] by simp
  also have "\<dots> \<le> (274 / 100) ^ 696"
    by (intro power_mono exp_1_upper) simp
  also note pow_274
  finally show ?thesis .
qed

lemma exp_758_lower: "(2 :: real) ^ 1024 \<le> exp 758"
proof -
  note pow_269
  also have "(269 / 100 :: real) ^ 758 \<le> exp 1 ^ 758"
    by (intro power_mono exp_1_lower) simp
  also have "\<dots> = exp (758 :: real)"
    using exp_of_nat_mult [of 758 "1 :: real"] by simp
  finally show ?thesis .
qed

text \<open>
  The argument of \<open>exp\<close> at 11000 K is below 696 and at 12000 K above 758: \<open>exp\<close> is
  finite up to 11000 K and overflows at 12000 K.
\<close>

lemma exp_arg_finite:
  fixes t :: real
  assumes "0 \<le> t" "t \<le> 11000"
  shows "1 \<le> exp (0.0631846 * t)" "exp (0.0631846 * t) \<le> 2 ^ 1013"
proof -
  have "0.0631846 * t \<le> 696"
    using assms by simp
  then have "exp (0.0631846 * t) \<le> exp 696"
    by simp
  then show "exp (0.0631846 * t) \<le> 2 ^ 1013"
    using exp_696_upper by (rule order_trans)
  show "1 \<le> exp (0.0631846 * t)"
    using assms by simp
qed

lemma exp_arg_overflows: "(2 :: real) ^ 1024 \<le> exp (0.0631846 * 12000)"
proof -
  have "exp (758 :: real) \<le> exp (0.0631846 * 12000)"
    by simp
  with exp_758_lower show ?thesis
    by (rule order_trans)
qed

lemma overflow_small: "\<bar>x\<bar> \<le> 2 ^ 1023 \<Longrightarrow> overflow x = Fin x"
  using f64_max_bounds(1) by (intro overflow_Fin) simp

lemma vapour_constant:
  "fsub (fdiv (Fin 1) (Fin 287.05)) (fdiv (Fin 1) (Fin 461.5)) = Fin (1 / 287.05 - 1 / 461.5)"
  by (simp add: overflow_small)

lemma saturation_finite:
  fixes t :: real
  assumes "0 \<le> t" "t \<le> 11000"
  shows "fmul (Fin 0.0000205) (fexp (fmul (Fin 0.0631846) (Fin t))) =
     Fin (0.0000205 * exp (0.0631846 * t))"
proof -
  have "\<bar>0.0631846 * t\<bar> \<le> 2 ^ 1023"
    using assms by simp
  then have a: "fmul (Fin 0.0631846) (Fin t) = Fin (0.0631846 * t)"
    by (simp add: overflow_small)
  have e: "exp (0.0631846 * t) \<le> 2 ^ 1013"
    by (rule exp_arg_finite [OF assms])
  also have "(2 :: real) ^ 1013 \<le> 2 ^ 1023"
    by (intro power_increasing) simp_all
  finally have b: "fexp (Fin (0.0631846 * t)) = Fin (exp (0.0631846 * t))"
    by (simp add: overflow_small)
  have "0.0000205 * exp (0.0631846 * t) \<le> 1 * exp (0.0631846 * t)"
    by (intro mult_right_mono) simp_all
  also have "\<dots> \<le> 2 ^ 1023"
    using e \<open>(2 :: real) ^ 1013 \<le> 2 ^ 1023\<close> by simp
  finally have "\<bar>0.0000205 * exp (0.0631846 * t)\<bar> \<le> 2 ^ 1023"
    by simp
  then show ?thesis
    unfolding a b by (simp add: overflow_small)
qed

lemma f64_equal_lengths:
  assumes "length P = length T" "length H = length T"
    and "\<not> list_ex (\<lambda>x. flt x (Fin 0)) T" "\<not> list_ex (\<lambda>x. flt x (Fin 0)) P"
      "\<not> list_ex (\<lambda>x. flt x (Fin 0)) H"
  shows "compute_air_density_f64 T P (Some H) =
     Inr (map (\<lambda>i. fmul (fdiv (Fin 1) (T ! i))
                 (fsub (fdiv (P ! i) (Fin 287.05))
                    (fmul (fmul (H ! i) (fmul (Fin 0.0000205) (fexp (fmul (Fin 0.0631846) (T ! i)))))
                       (fsub (fdiv (Fin 1) (Fin 287.05)) (fdiv (Fin 1) (Fin 461.5))))))
            [0..<length T])"
  using assms
  by (auto simp: compute_air_density_f64_def Let_def broadcast2_same bind_err_def
      simp del: fmul.simps fsub.simps fdiv.simps fexp.simps intro!: nth_equalityI)

lemma fsub_NaN: "fsub x NaN = NaN"
  by (cases x) simp_all

lemma fmul_NaN: "fmul x NaN = NaN"
  by (cases x) simp_all

lemma f64_single:
  assumes "\<not> flt t (Fin 0)" "\<not> flt p (Fin 0)" "\<not> flt h (Fin 0)"
  shows "compute_air_density_f64 [t] [p] (Some [h]) =
     Inr [fmul (fdiv (Fin 1) t)
            (fsub (fdiv p (Fin 287.05))
               (fmul (fmul h (fmul (Fin 0.0000205) (fexp (fmul (Fin 0.0631846) t))))
                  (fsub (fdiv (Fin 1) (Fin 287.05)) (fdiv (Fin 1) (Fin 461.5)))))]"
  using f64_equal_lengths [of "[p]" "[t]" "[h]"] assms
  by (simp del: fmul.simps fsub.simps fdiv.simps fexp.simps)

text \<open>
  One sample inside the range where nothing overflows: the float64 model and the real
  model give the same value.
\<close>

lemma sample_in_range:
  fixes t p h :: real
  assumes t: "1 \<le> t" "t \<le> 11000" and p: "0 \<le> p" "p \<le> f64_max" and h: "0 \<le> h" "h \<le> 1"
  shows "fmul (fdiv (Fin 1) (Fin t))
       (fsub (fdiv (Fin p) (Fin 287.05))
          (fmul (fmul (Fin h) (fmul (Fin 0.0000205) (fexp (fmul (Fin 0.0631846) (Fin t)))))
             (fsub (fdiv (Fin 1) (Fin 287.05)) (fdiv (Fin 1) (Fin 461.5))))) =
     Fin ((1 / t) * (p / 287.05 -
            h * (0.0000205 * exp (0.0631846 * t)) * (1 / 287.05 - 1 / 461.5)))"
proof -
  define s where "s = 0.0000205 * exp (0.0631846 * t)"
  define c :: real where "c = 1 / 287.05 - 1 / 461.5"
  define q where "q = p / 287.05"
  have t0: "0 \<le> t" "t \<noteq> 0" "0 < t"
    using t(1) by simp_all
  have sat: "fmul (Fin 0.0000205) (fexp (fmul (Fin 0.0631846) (Fin t))) = Fin s"
    unfolding s_def by (rule saturation_finite [OF t0(1) t(2)])
  have "exp (0.0631846 * t) \<le> 2 ^ 1013"
    by (rule exp_arg_finite [OF t0(1) t(2)])
  moreover have "(2 :: real) ^ 1013 \<le> 2 ^ 1023"
    by (intro power_increasing) simp_all
  moreover have "0.0000205 * exp (0.0631846 * t) \<le> 1 * exp (0.0631846 * t)"
    by (intro mult_right_mono) simp_all
  ultimately have s: "0 < s" "s \<le> f64_max"
    using f64_max_bounds(1) by (simp_all add: s_def)
  have c: "0 < c" "c \<le> 1"
    by (simp_all add: c_def)
  have con: "fsub (fdiv (Fin 1) (Fin 287.05)) (fdiv (Fin 1) (Fin 461.5)) = Fin c"
    unfolding c_def by (rule vapour_constant)
  have q: "0 \<le> q" "q \<le> f64_max"
    using p by (simp_all add: q_def field_simps)
  have dry: "fdiv (Fin p) (Fin 287.05) = Fin q"
    using q by (simp add: q_def overflow_Fin)
  have hs: "0 \<le> h * s" "h * s \<le> s"
    using h s(1) by (simp_all add: mult_left_le_one_le)
  then have vap: "fmul (Fin h) (Fin s) = Fin (h * s)"
    using s(2) by (simp add: overflow_Fin)
  have w: "0 \<le> h * s * c" "h * s * c \<le> f64_max"
    using hs c s(2) mult_left_le [of c "h * s"] by simp_all
  then have wet: "fmul (Fin (h * s)) (Fin c) = Fin (h * s * c)"
    by (simp add: overflow_Fin)
  have d: "\<bar>q - h * s * c\<bar> \<le> f64_max"
    using q w by (simp add: abs_if)
  then have inner: "fsub (Fin q) (Fin (h * s * c)) = Fin (q - h * s * c)"
    by (simp add: overflow_Fin)
  have it: "0 \<le> 1 / t" "1 / t \<le> 1"
    using t(1) by simp_all
  moreover have "(1 :: real) \<le> 2 ^ 1023"
    by (rule one_le_power) simp
  ultimately have "\<bar>1 / t\<bar> \<le> 2 ^ 1023"
    by simp
  then have inv: "fdiv (Fin 1) (Fin t) = Fin (1 / t)"
    using t0(2) by (simp add: overflow_small)
  have "\<bar>(1 / t) * (q - h * s * c)\<bar> \<le> 1 * \<bar>q - h * s * c\<bar>"
    unfolding abs_mult using it by (intro mult_right_mono) simp_all
  then have "\<bar>(1 / t) * (q - h * s * c)\<bar> \<le> f64_max"
    using d by simp
  then have "fmul (Fin (1 / t)) (Fin (q - h * s * c)) = Fin ((1 / t) * (q - h * s * c))"
    by (simp only: fmul.simps overflow_Fin)
  then show ?thesis
    unfolding sat con dry vap wet inner inv
    unfolding s_def c_def q_def .
qed

lemma f64_agrees_in_range:
  assumes "length P = length T" and "length H = length T"
    and "\<forall>t\<in>set T. 1 \<le> t \<and> t \<le> 11000" and "\<forall>p\<in>set P. 0 \<le> p \<and> p \<le> f64_max"
    and "\<forall>h\<in>set H. 0 \<le> h \<and> h \<le> 1"
  shows "compute_air_density_f64 (map Fin T) (map Fin P) (Some (map Fin H)) =
     map_sum id (map Fin) (compute_air_density (FloatArr T) (FloatArr P) (Some (FloatArr H)))"
proof -
  have ok: "\<not> list_ex (\<lambda>x. flt x (Fin 0)) (map Fin T)" "\<not> list_ex (\<lambda>x. flt x (Fin 0)) (map Fin P)"
      "\<not> list_ex (\<lambda>x. flt x (Fin 0)) (map Fin H)"
    using assms(3-5) by (auto simp: list_ex_iff)
  have ok': "\<not> any_lt0 (FloatArr T)" "\<not> any_lt0 (FloatArr P)" "\<not> any_lt0 (FloatArr H)"
    using assms(3-5) by (auto simp: list_ex_iff)
  have len: "length (map Fin P) = length (map Fin T)" "length (map Fin H) = length (map Fin T)"
    using assms(1,2) by simp_all
  have sample: "fmul (fdiv (Fin 1) (Fin (T ! i)))
       (fsub (fdiv (Fin (P ! i)) (Fin 287.05))
          (fmul (fmul (Fin (H ! i)) (fmul (Fin 0.0000205) (fexp (fmul (Fin 0.0631846) (Fin (T ! i))))))
             (fsub (fdiv (Fin 1) (Fin 287.05)) (fdiv (Fin 1) (Fin 461.5))))) =
     Fin ((1 / T ! i) * (P ! i / 287.05 -
            H ! i * (0.0000205 * exp (0.0631846 * T ! i)) * (1 / 287.05 - 1 / 461.5)))"
    if "i < length T" for i
    using that assms by (intro sample_in_range) simp_all
  show ?thesis
    unfolding f64_equal_lengths [OF len ok]
    using assms(1,2) sample compute_equal_lengths [of "FloatArr P" "FloatArr T" "FloatArr H", OF _ _ ok']
    by (auto simp del: fmul.simps fsub.simps fdiv.simps fexp.simps intro!: nth_equalityI)
qed

text \<open>Outside that range: at 12000 K the result is NaN, at \<^verbatim>\<open>1e-300\<close> K it can overflow.\<close>

lemma exp_overflow_12000: "fexp (fmul (Fin 0.0631846) (Fin 12000)) = PInf"
proof -
  have "fmul (Fin 0.0631846) (Fin 12000) = Fin (0.0631846 * 12000)"
    by (simp add: overflow_small)
  then show ?thesis
    using exp_arg_overflows by (simp add: overflow_PInf)
qed

lemma nan_sample:
  fixes p :: real
  assumes "0 \<le> p"
  shows "compute_air_density_f64 [Fin 12000] [Fin p] (Some [Fin 0]) = Inr [NaN]"
proof -
  have wet: "fmul (fmul (Fin 0) (fmul (Fin 0.0000205) (fexp (fmul (Fin 0.0631846) (Fin 12000)))))
      (fsub (fdiv (Fin 1) (Fin 287.05)) (fdiv (Fin 1) (Fin 461.5))) = NaN"
    unfolding exp_overflow_12000 by simp
  have ok: "\<not> flt (Fin 12000) (Fin 0)" "\<not> flt (Fin p) (Fin 0)" "\<not> flt (Fin 0) (Fin 0)"
    using assms(1) by simp_all
  show ?thesis
    unfolding f64_single [OF ok] wet by (simp only: fsub_NaN fmul_NaN)
qed

lemma overflowing_sample:
  fixes p :: real
  assumes "0 \<le> p" "p \<le> 2 ^ 1023"
  shows "compute_air_density_f64 [Fin (1 / 10 ^ 300)] [Fin p] (Some [Fin 0]) =
     Inr [overflow (10 ^ 300 * (p / 287.05))]"
proof -
  have sat: "fmul (Fin 0.0000205) (fexp (fmul (Fin 0.0631846) (Fin (1 / 10 ^ 300)))) =
     Fin (0.0000205 * exp (0.0631846 * (1 / 10 ^ 300)))"
    by (rule saturation_finite) simp_all
  have wet: "fmul (fmul (Fin 0) (fmul (Fin 0.0000205) (fexp (fmul (Fin 0.0631846) (Fin (1 / 10 ^ 300))))))
      (fsub (fdiv (Fin 1) (Fin 287.05)) (fdiv (Fin 1) (Fin 461.5))) = Fin 0"
    unfolding sat vapour_constant by (simp add: overflow_small)
  have inv: "fdiv (Fin 1) (Fin (1 / 10 ^ 300)) = Fin (10 ^ 300)"
    by (simp add: overflow_small)
  have "p / 287.05 \<le> p"
    using assms(1) by (simp add: field_simps)
  then have q: "\<bar>p / 287.05\<bar> \<le> 2 ^ 1023"
    using assms by simp
  then have dry: "fdiv (Fin p) (Fin 287.05) = Fin (p / 287.05)"
    by (simp add: overflow_small)
  have inner: "fsub (Fin (p / 287.05)) (Fin 0) = Fin (p / 287.05)"
    using q by (simp add: overflow_small)
  have ok: "\<not> flt (Fin (1 / 10 ^ 300)) (Fin 0)" "\<not> flt (Fin p) (Fin 0)" "\<not> flt (Fin 0) (Fin 0)"
    using assms(1) by simp_all
  show ?thesis
    unfolding f64_single [OF ok] wet dry inner inv by (simp only: fmul.simps)
qed

text \<open>
  C6, as amended: when every humidity element is 0 and every temperature lies between
  1 K and 11000 K, nothing overflows, the vapour term vanishes and the density is
  \<open>(1 / T) * (P / 287.05)\<close> at every index, the dry-air law \<open>P / (287.05 * T)\<close>; the
  instance \<open>T = 250\<close>, \<open>P = 90000\<close> is \<open>90000 / (287.05 * 250)\<close>, about 1.2541.
\<close>

theorem dry_air_law_in_range:
  assumes "length P = length T"
    and "\<forall>t\<in>set T. 1 \<le> t \<and> t \<le> 11000" and "\<forall>p\<in>set P. 0 \<le> p \<and> p \<le> f64_max"
  shows "compute_air_density_f64 (map Fin T) (map Fin P) (Some (replicate (length T) (Fin 0))) =
     Inr (map2 (\<lambda>p t. Fin ((1 / t) * (p / 287.05))) P T)"
proof -
  have ok: "\<not> list_ex (\<lambda>x. flt x (Fin 0)) (map Fin T)" "\<not> list_ex (\<lambda>x. flt x (Fin 0)) (map Fin P)"
      "\<not> list_ex (\<lambda>x. flt x (Fin 0)) (replicate (length T) (Fin 0))"
    using assms(2,3) by (auto simp: list_ex_iff)
  have len: "length (map Fin P) = length (map Fin T)"
      "length (replicate (length T) (Fin 0)) = length (map Fin T)"
    using assms(1) by simp_all
  have sample: "fmul (fdiv (Fin 1) (Fin (T ! i)))
       (fsub (fdiv (Fin (P ! i)) (Fin 287.05))
          (fmul (fmul (Fin 0) (fmul (Fin 0.0000205) (fexp (fmul (Fin 0.0631846) (Fin (T ! i))))))
             (fsub (fdiv (Fin 1) (Fin 287.05)) (fdiv (Fin 1) (Fin 461.5))))) =
     Fin ((1 / T ! i) * (P ! i / 287.05))" if "i < length T" for i
    using that assms sample_in_range [of "T ! i" "P ! i" 0] by simp
  show ?thesis
    unfolding f64_equal_lengths [OF len ok]
    using assms(1) sample
    by (auto simp del: fmul.simps fsub.simps fdiv.simps fexp.simps intro!: nth_equalityI)
qed

theorem dry_air_law_in_range_witness:
  "compute_air_density_f64 [Fin 250] [Fin 90000] (Some [Fin 0]) = Inr [Fin (90000 / (287.05 * 250))] \<and>
   \<bar>90000 / (287.05 * 250) - 1.2541\<bar> < (0.0001 :: real)"
proof -
  have "(90000 :: real) \<le> f64_max"
    by (rule order_trans [OF _ f64_max_bounds(1)]) simp
  then show ?thesis
    using dry_air_law_in_range [of "[90000]" "[250]"] by simp
qed

text \<open>
  C6, as stated, fails: at \<open>T = 12000\<close>, \<open>P = 101325\<close> and humidity 0 the result is NaN
  (\<open>exp\<close> overflows and \<open>0 * inf\<close> is NaN), not \<open>P / (287.05 * T)\<close>.
\<close>

theorem dry_air_law_fails_at_12000:
  "compute_air_density_f64 [Fin 12000] [Fin 101325] (Some [Fin 0]) = Inr [NaN]"
  by (rule nan_sample) simp

text \<open>A larger pressure never gives a smaller density, for one sample.\<close>

lemma nondecreasing_sample:
  fixes t p1 p2 h :: real
  assumes t: "1 / 10 ^ 300 \<le> t" "t \<le> 11000"
    and p: "0 \<le> p1" "p1 \<le> p2" "p2 \<le> f64_max"
    and h: "0 \<le> h"
  shows "fle
     (fmul (fdiv (Fin 1) (Fin t))
       (fsub (fdiv (Fin p1) (Fin 287.05))
          (fmul (fmul (Fin h) (fmul (Fin 0.0000205) (fexp (fmul (Fin 0.0631846) (Fin t)))))
             (fsub (fdiv (Fin 1) (Fin 287.05)) (fdiv (Fin 1) (Fin 461.5))))))
     (fmul (fdiv (Fin 1) (Fin t))
       (fsub (fdiv (Fin p2) (Fin 287.05))
          (fmul (fmul (Fin h) (fmul (Fin 0.0000205) (fexp (fmul (Fin 0.0631846) (Fin t)))))
             (fsub (fdiv (Fin 1) (Fin 287.05)) (fdiv (Fin 1) (Fin 461.5))))))"
proof -
  define s where "s = 0.0000205 * exp (0.0631846 * t)"
  define c :: real where "c = 1 / 287.05 - 1 / 461.5"
  define q1 q2 where "q1 = p1 / 287.05" and "q2 = p2 / 287.05"
  have t0: "0 < t"
    using t(1) by (rule less_le_trans [rotated]) simp
  have sat: "fmul (Fin 0.0000205) (fexp (fmul (Fin 0.0631846) (Fin t))) = Fin s"
    unfolding s_def using t0 t(2) by (intro saturation_finite) simp_all
  have s: "0 < s"
    by (simp add: s_def)
  have c: "0 < c" "c \<le> 1"
    by (simp_all add: c_def)
  have con: "fsub (fdiv (Fin 1) (Fin 287.05)) (fdiv (Fin 1) (Fin 461.5)) = Fin c"
    unfolding c_def by (rule vapour_constant)
  have q: "0 \<le> q1" "q1 \<le> q2" "q2 \<le> f64_max"
    using p by (simp_all add: q1_def q2_def field_simps)
  have dry: "fdiv (Fin p1) (Fin 287.05) = Fin q1" "fdiv (Fin p2) (Fin 287.05) = Fin q2"
    using q by (simp_all add: q1_def q2_def overflow_Fin)
  have "1 / t \<le> 10 ^ 300"
    using t(1) t0 by (simp add: field_simps)
  also have "(10 :: real) ^ 300 \<le> 2 ^ 1023"
    by simp
  finally have "\<bar>1 / t\<bar> \<le> 2 ^ 1023"
    using t0 by simp
  then have inv: "fdiv (Fin 1) (Fin t) = Fin (1 / t)"
    using t0 by (simp add: overflow_small)
  have it: "0 < 1 / t"
    using t0 by simp
  show ?thesis
  proof (cases "\<bar>h * s\<bar> < f64_max + 2 ^ 970")
    case True
    then have vap: "fmul (Fin h) (Fin s) = Fin (h * s)"
      by (simp add: overflow_def)
    have w: "0 \<le> h * s * c" "h * s * c \<le> h * s"
      using h s c by (simp_all add: mult_left_le)
    then have "\<bar>h * s * c\<bar> < f64_max + 2 ^ 970"
      using True h s by simp
    then have wet: "fmul (Fin (h * s)) (Fin c) = Fin (h * s * c)"
      by (simp add: overflow_def)
    have "\<bar>q1 - h * s * c\<bar> < f64_max + 2 ^ 970" "\<bar>q2 - h * s * c\<bar> < f64_max + 2 ^ 970"
      using q w \<open>\<bar>h * s * c\<bar> < f64_max + 2 ^ 970\<close> by (simp_all add: abs_if)
    then have inner: "fsub (Fin q1) (Fin (h * s * c)) = Fin (q1 - h * s * c)"
        "fsub (Fin q2) (Fin (h * s * c)) = Fin (q2 - h * s * c)"
      by (simp_all add: overflow_def)
    have "(1 / t) * (q1 - h * s * c) \<le> (1 / t) * (q2 - h * s * c)"
      using it q(2) by (intro mult_left_mono) simp_all
    then have "fle (overflow ((1 / t) * (q1 - h * s * c))) (overflow ((1 / t) * (q2 - h * s * c)))"
      by (rule fle_overflow)
    then show ?thesis
      unfolding sat con dry inv vap wet inner by (simp only: fmul.simps)
  next
    case False
    moreover have "0 \<le> h * s"
      using h s by simp
    moreover have "0 < f64_max + 2 ^ 970"
      using f64_max_bounds(1) by (simp add: add_pos_pos less_le_trans [OF _ f64_max_bounds(1)])
    ultimately have vap: "fmul (Fin h) (Fin s) = PInf"
      by (simp add: overflow_def)
    show ?thesis
      unfolding sat con dry inv vap using c(1) it by simp
  qed
qed

text \<open>
  C9, as amended: with temperature and humidity fixed and the temperature at index
  \<open>i\<close> between \<^verbatim>\<open>1e-300\<close> K and 11000 K, a larger pressure at index \<open>i\<close> gives a
  density at index \<open>i\<close> that is not smaller (\<^verbatim>\<open><=\<close> holds; \<^verbatim>\<open><\<close> need not).
\<close>

theorem density_nondecreasing_in_pressure:
  assumes "length P1 = length T" and "length P2 = length T" and "length H = length T"
    and "\<forall>t\<in>set T. 0 \<le> t \<and> t \<le> f64_max"
    and "\<forall>p\<in>set P1. 0 \<le> p \<and> p \<le> f64_max" and "\<forall>p\<in>set P2. 0 \<le> p \<and> p \<le> f64_max"
    and "\<forall>h\<in>set H. 0 \<le> h \<and> h \<le> f64_max"
    and "i < length T" and "1 / 10 ^ 300 \<le> T ! i" and "T ! i \<le> 11000" and "P1 ! i < P2 ! i"
  shows "\<exists>rho1 rho2.
     compute_air_density_f64 (map Fin T) (map Fin P1) (Some (map Fin H)) = Inr rho1 \<and>
     compute_air_density_f64 (map Fin T) (map Fin P2) (Some (map Fin H)) = Inr rho2 \<and>
     fle (rho1 ! i) (rho2 ! i)"
proof -
  have ok: "\<not> list_ex (\<lambda>x. flt x (Fin 0)) (map Fin T)" "\<not> list_ex (\<lambda>x. flt x (Fin 0)) (map Fin P1)"
      "\<not> list_ex (\<lambda>x. flt x (Fin 0)) (map Fin P2)" "\<not> list_ex (\<lambda>x. flt x (Fin 0)) (map Fin H)"
    using assms(4-7) by (auto simp: list_ex_iff)
  have len: "length (map Fin P1) = length (map Fin T)" "length (map Fin P2) = length (map Fin T)"
      "length (map Fin H) = length (map Fin T)"
    using assms(1-3) by simp_all
  have "0 \<le> P1 ! i" "P2 ! i \<le> f64_max" "0 \<le> H ! i"
    using assms(1-3,5-8) by (simp_all add: all_set_conv_all_nth)
  then have "fle
     (fmul (fdiv (Fin 1) (Fin (T ! i)))
       (fsub (fdiv (Fin (P1 ! i)) (Fin 287.05))
          (fmul (fmul (Fin (H ! i)) (fmul (Fin 0.0000205) (fexp (fmul (Fin 0.0631846) (Fin (T ! i))))))
             (fsub (fdiv (Fin 1) (Fin 287.05)) (fdiv (Fin 1) (Fin 461.5))))))
     (fmul (fdiv (Fin 1) (Fin (T ! i)))
       (fsub (fdiv (Fin (P2 ! i)) (Fin 287.05))
          (fmul (fmul (Fin (H ! i)) (fmul (Fin 0.0000205) (fexp (fmul (Fin 0.0631846) (Fin (T ! i))))))
             (fsub (fdiv (Fin 1) (Fin 287.05)) (fdiv (Fin 1) (Fin 461.5))))))"
    using assms(9-11) by (intro nondecreasing_sample) simp_all
  then show ?thesis
    unfolding f64_equal_lengths [OF len(1,3) ok(1,2,4)] f64_equal_lengths [OF len(2,3) ok(1,3,4)]
    using assms(1-3,8)
    by (simp del: fmul.simps fsub.simps fdiv.simps fexp.simps)
qed

theorem density_nondecreasing_in_pressure_witness:
  "\<exists>rho1 rho2.
     compute_air_density_f64 [Fin 250, Fin 300] [Fin 90000, Fin 100000] (Some [Fin 0.5, Fin 1]) = Inr rho1 \<and>
     compute_air_density_f64 [Fin 250, Fin 300] [Fin 90000, Fin 100001] (Some [Fin 0.5, Fin 1]) = Inr rho2 \<and>
     fle (rho1 ! 1) (rho2 ! 1)"
proof -
  have "(250 :: real) \<le> f64_max" "(300 :: real) \<le> f64_max" "(90000 :: real) \<le> f64_max"
      "(100000 :: real) \<le> f64_max" "(100001 :: real) \<le> f64_max" "(0.5 :: real) \<le> f64_max"
      "(1 :: real) \<le> f64_max"
    by (rule order_trans [OF _ f64_max_bounds(1)], simp)+
  then show ?thesis
    using density_nondecreasing_in_pressure [of "[90000, 100000]" "[250, 300]" "[90000, 100001]"
        "[0.5, 1]" 1]
    by simp
qed

text \<open>
  C9, as stated, fails: two different pressures can give the same infinite density, and
  at 12000 K with humidity 0 both densities are NaN, which no comparison orders.
\<close>

theorem density_not_strictly_increasing:
  "compute_air_density_f64 [Fin (1 / 10 ^ 300)] [Fin (10 ^ 12)] (Some [Fin 0]) = Inr [PInf] \<and>
   compute_air_density_f64 [Fin (1 / 10 ^ 300)] [Fin (2 * 10 ^ 12)] (Some [Fin 0]) = Inr [PInf] \<and>
   \<not> flt PInf PInf \<and>
   compute_air_density_f64 [Fin 12000] [Fin 90000] (Some [Fin 0]) = Inr [NaN] \<and>
   compute_air_density_f64 [Fin 12000] [Fin 100000] (Some [Fin 0]) = Inr [NaN] \<and>
   \<not> flt NaN NaN"
proof -
  have "overflow (10 ^ 300 * (10 ^ 12 / 287.05)) = PInf"
    "overflow (10 ^ 300 * (2 * 10 ^ 12 / 287.05)) = PInf"
    by (simp_all add: overflow_PInf)
  then show ?thesis
    using overflowing_sample [of "10 ^ 12"] overflowing_sample [of "2 * 10 ^ 12"]
      nan_sample [of 90000] nan_sample [of 100000]
    by simp
qed

subsection \<open>Humidity of another length\<close>







end
